theory Spec2Isabelle
  imports Main
begin

section \<open>Collapse: a shallow embedding of src/Collapse.js\<close>

text \<open>
  The component installs five phase handlers on a transition delegate. Each handler
  resolves the animated dimension and writes one inline style of the DOM node it is
  given. The embedding below keeps the JavaScript values the handlers compute with
  (numbers that may be NaN, strings, null, undefined), the DOM nodes as a store indexed
  by reference, and every DOM access in a trace, so that the order of reads and writes
  is a property of the result.
\<close>

subsection \<open>JavaScript values\<close>

text \<open>
  A number is NaN or an integer: offsets and scroll extents of a DOM node are integers
  and \<open>parseInt\<close> yields an integer or NaN. An integer is exact as a JavaScript number up
  to \<open>2 ^ 53\<close> in magnitude and prints in plain decimal below \<open>10 ^ 21\<close>; pixel counts are
  far inside both bounds. Strings are lists of 8-bit characters.
\<close>

datatype jsnum = NaN | Num int

datatype jsval = Undefined | Null | Number jsnum | Str string

datatype error = TypeError | Thrown string

definition digit_chars :: string where
  "digit_chars = ''0123456789''"

definition is_digit :: "char \<Rightarrow> bool" where
  "is_digit c = (c \<in> set digit_chars)"

definition digit_val :: "char \<Rightarrow> nat" where
  "digit_val c = length (takeWhile (\<lambda>d. d \<noteq> c) digit_chars)"

definition digits_val :: "string \<Rightarrow> nat" where
  "digits_val s = foldl (\<lambda>acc c. 10 * acc + digit_val c) 0 s"

text \<open>White space that \<open>parseInt\<close> skips: TAB, LF, VT, FF, CR, SP and NBSP.\<close>

definition is_white_space :: "char \<Rightarrow> bool" where
  "is_white_space c = (of_char c \<in> {9, 10, 11, 12, 13, 32, 160 :: nat})"

text \<open>
  \<open>parseInt(s, 10)\<close>: skip leading white space, read an optional sign, take the longest
  prefix of decimal digits; no digit gives NaN, anything after the digits is ignored.
\<close>

definition parseInt :: "string \<Rightarrow> jsnum" where
  "parseInt s =
     (let t = dropWhile is_white_space s;
          neg = (t \<noteq> [] \<and> hd t = CHR ''-'');
          u = (if t \<noteq> [] \<and> (hd t = CHR ''-'' \<or> hd t = CHR ''+'') then tl t else t);
          z = takeWhile is_digit u
      in if z = [] then NaN
         else Num ((if neg then - 1 else 1) * int (digits_val z)))"

text \<open>Number to string, as a template literal does it.\<close>

function show_nat :: "nat \<Rightarrow> string" where
  "show_nat n =
     (if n < 10 then [digit_chars ! n]
      else show_nat (n div 10) @ [digit_chars ! (n mod 10)])"
  by pat_completeness auto
termination
  by (relation "measure (\<lambda>n. n)") auto

declare show_nat.simps [simp del]

definition show_int :: "int \<Rightarrow> string" where
  "show_int i = (if i < 0 then CHR ''-'' # show_nat (nat (- i)) else show_nat (nat i))"

fun show_num :: "jsnum \<Rightarrow> string" where
  "show_num NaN = ''NaN''"
| "show_num (Num i) = show_int i"

fun to_string :: "jsval \<Rightarrow> string" where
  "to_string Undefined = ''undefined''"
| "to_string Null = ''null''"
| "to_string (Number n) = show_num n"
| "to_string (Str s) = s"

text \<open>The binary \<open>+\<close>: string concatenation when an operand is a string, else addition
  of numbers, where undefined counts as NaN, null as 0, and NaN absorbs.\<close>

fun to_number :: "jsval \<Rightarrow> jsnum" where
  "to_number Undefined = NaN"
| "to_number Null = Num 0"
| "to_number (Number n) = n"
| "to_number (Str s) = NaN"

fun add_num :: "jsnum \<Rightarrow> jsnum \<Rightarrow> jsnum" where
  "add_num (Num a) (Num b) = Num (a + b)"
| "add_num _ _ = NaN"

fun js_plus :: "jsval \<Rightarrow> jsval \<Rightarrow> jsval" where
  "js_plus (Str a) y = Str (a @ to_string y)"
| "js_plus x (Str b) = Str (to_string x @ b)"
| "js_plus x y = Number (add_num (to_number x) (to_number y))"

subsection \<open>DOM nodes and the world the handlers run in\<close>

text \<open>
  A DOM node carries its layout measurements, the inline style object the handlers
  assign to (a property that was never assigned is absent), and the values the style
  helper \<open>css(node, property)\<close> of dom-helpers reports for it. A write to the inline
  style is recorded as the plain assignment the source performs.
\<close>

record element =
  offsetHeight :: int
  offsetWidth :: int
  scrollHeight :: int
  scrollWidth :: int
  style :: "string \<rightharpoonup> jsval"
  computed :: "string \<rightharpoonup> string"

type_synonym ref = nat

datatype access =
    Get ref string
  | Css ref string
  | Put ref string jsval

text \<open>
  The world: the DOM nodes by reference, the DOM accesses made so far (oldest first),
  and the variables of the caller, which only caller-supplied functions read or write.
  A handler receives \<open>Some r\<close> for the node \<open>r\<close> and \<open>None\<close> for null or undefined.
\<close>

record world =
  nodes :: "ref \<Rightarrow> element"
  trace :: "access list"
  env :: "string \<rightharpoonup> int"

type_synonym 'a js = "world \<Rightarrow> error + 'a \<times> world"

definition ret :: "'a \<Rightarrow> 'a js" where
  "ret a w = Inr (a, w)"

definition then_do :: "'a js \<Rightarrow> ('a \<Rightarrow> 'b js) \<Rightarrow> 'b js" where
  "then_do m f w = (case m w of Inl e \<Rightarrow> Inl e | Inr (a, w1) \<Rightarrow> f a w1)"

definition element_prop :: "element \<Rightarrow> string \<Rightarrow> jsval" where
  "element_prop e name =
     (if name = ''offsetHeight'' then Number (Num (offsetHeight e))
      else if name = ''offsetWidth'' then Number (Num (offsetWidth e))
      else if name = ''scrollHeight'' then Number (Num (scrollHeight e))
      else if name = ''scrollWidth'' then Number (Num (scrollWidth e))
      else Undefined)"

text \<open>\<open>elem[name]\<close>: a TypeError on null, else the property, and the read is traced.\<close>

definition elem_get :: "ref option \<Rightarrow> string \<Rightarrow> jsval js" where
  "elem_get elem name w =
     (case elem of
        None \<Rightarrow> Inl TypeError
      | Some r \<Rightarrow> Inr (element_prop (nodes w r) name, w\<lparr>trace := trace w @ [Get r name]\<rparr>))"

text \<open>\<open>css(elem, property)\<close> of dom-helpers: the reported value, the empty string when
  the node has none.\<close>

definition css_value :: "element \<Rightarrow> string \<Rightarrow> string" where
  "css_value e property = (case computed e property of None \<Rightarrow> [] | Some s \<Rightarrow> s)"

definition css :: "ref option \<Rightarrow> string \<Rightarrow> string js" where
  "css elem property w =
     (case elem of
        None \<Rightarrow> Inl TypeError
      | Some r \<Rightarrow>
          Inr (css_value (nodes w r) property, w\<lparr>trace := trace w @ [Css r property]\<rparr>))"

definition style_put :: "ref \<Rightarrow> string \<Rightarrow> jsval \<Rightarrow> world \<Rightarrow> world" where
  "style_put r key v w =
     w\<lparr>nodes := (nodes w)(r := (nodes w r)\<lparr>style := (style (nodes w r))(key \<mapsto> v)\<rparr>),
       trace := trace w @ [Put r key v]\<rparr>"

text \<open>
  \<open>elem.style[key] = rhs\<close>: the base \<open>elem.style\<close> is evaluated first (a TypeError on
  null), then the right-hand side, then the value is stored.
\<close>

definition style_assign :: "ref option \<Rightarrow> string \<Rightarrow> jsval js \<Rightarrow> unit js" where
  "style_assign elem key rhs w =
     (case elem of
        None \<Rightarrow> Inl TypeError
      | Some r \<Rightarrow> then_do rhs (\<lambda>v w1. Inr ((), style_put r key v w1)) w)"

subsection \<open>Module level: MARGINS, triggerBrowserReflow, getDimensionValue\<close>

text \<open>The dimension is one of the two strings the prop types admit.\<close>

datatype dimension = Height | Width

fun dimension_name :: "dimension \<Rightarrow> string" where
  "dimension_name Height = ''height''"
| "dimension_name Width = ''width''"

fun MARGINS :: "dimension \<Rightarrow> string list" where
  "MARGINS Height = [''marginTop'', ''marginBottom'']"
| "MARGINS Width = [''marginLeft'', ''marginRight'']"

text \<open>A lower-case letter in upper case, any other character as it is.\<close>

definition upper_char :: "char \<Rightarrow> char" where
  "upper_char c =
     (case map_of (zip ''abcdefghijklmnopqrstuvwxyz'' ''ABCDEFGHIJKLMNOPQRSTUVWXYZ'') c of
        None \<Rightarrow> c
      | Some u \<Rightarrow> u)"

text \<open>
  Modelled from the spec: utils/capitalize is not under src/. The spec calls what is
  read under the name built with it "the element's laid-out box size along the axis"
  and "the element's full scrollable extent along the axis", that is offsetHeight and
  scrollHeight for height, offsetWidth and scrollWidth for width: the first letter of
  the dimension is put in upper case and the rest is kept.
\<close>

fun capitalize :: "string \<Rightarrow> string" where
  "capitalize [] = []"
| "capitalize (c # cs) = upper_char c # cs"

definition triggerBrowserReflow :: "ref option \<Rightarrow> unit js" where
  "triggerBrowserReflow node = then_do (elem_get node ''offsetHeight'') (\<lambda>_. ret ())"

definition getDimensionValue :: "dimension \<Rightarrow> ref option \<Rightarrow> jsval js" where
  "getDimensionValue dimension elem =
     then_do (elem_get elem (''offset'' @ capitalize (dimension_name dimension))) (\<lambda>value.
       let margins = MARGINS dimension in
       then_do (css elem (margins ! 0)) (\<lambda>s0.
       then_do (css elem (margins ! 1)) (\<lambda>s1.
         ret (js_plus (js_plus value (Number (parseInt s0))) (Number (parseInt s1))))))"

subsection \<open>Props\<close>

text \<open>
  The props are typed as \<open>propTypes\<close> declares them. The dimension is a literal or a
  function of no argument; a caller-supplied function runs in the world, may change it
  and may throw.
\<close>

type_synonym handler = "ref option \<Rightarrow> unit js"

type_synonym measure = "dimension \<Rightarrow> ref option \<Rightarrow> jsval js"

datatype dimension_prop =
    DimensionValue dimension
  | DimensionFunction "dimension js"

datatype pval =
    PNull
  | PBool bool
  | PNum int
  | PStr string
  | PFunc handler
  | PDimension dimension_prop
  | PMeasure measure

text \<open>\<open>this.props\<close>, after the defaults are filled in. \<open>props_other\<close> holds the props
  the component does not declare (children, id, ...).\<close>

record props =
  props_in :: bool
  props_mountOnEnter :: bool
  props_unmountOnExit :: bool
  props_transitionAppear :: bool
  props_timeout :: int
  props_onEnter :: "handler option"
  props_onEntering :: "handler option"
  props_onEntered :: "handler option"
  props_onExit :: "handler option"
  props_onExiting :: "handler option"
  props_onExited :: "handler option"
  props_dimension :: dimension_prop
  props_getDimensionValue :: measure
  props_role :: "string option"
  props_className :: "string option"
  props_other :: "string \<rightharpoonup> pval"

subsection \<open>The component's methods\<close>

definition this_dimension :: "props \<Rightarrow> dimension js" where
  "this_dimension this =
     (case props_dimension this of
        DimensionFunction f \<Rightarrow> f
      | DimensionValue d \<Rightarrow> ret d)"

definition this_getScrollDimensionValue :: "ref option \<Rightarrow> dimension \<Rightarrow> string js" where
  "this_getScrollDimensionValue elem dimension =
     then_do (elem_get elem (''scroll'' @ capitalize (dimension_name dimension))) (\<lambda>v.
       ret (to_string v @ ''px''))"

definition handleEnter :: "props \<Rightarrow> handler" where
  "handleEnter this elem =
     then_do (this_dimension this) (\<lambda>dimension.
       style_assign elem (dimension_name dimension) (ret (Str ''0'')))"

definition handleEntered :: "props \<Rightarrow> handler" where
  "handleEntered this elem =
     then_do (this_dimension this) (\<lambda>dimension.
       style_assign elem (dimension_name dimension) (ret Null))"

definition handleEntering :: "props \<Rightarrow> handler" where
  "handleEntering this elem =
     then_do (this_dimension this) (\<lambda>dimension.
       style_assign elem (dimension_name dimension)
         (then_do (this_getScrollDimensionValue elem dimension) (\<lambda>s. ret (Str s))))"

definition handleExit :: "props \<Rightarrow> handler" where
  "handleExit this elem =
     then_do (this_dimension this) (\<lambda>dimension.
       then_do
         (style_assign elem (dimension_name dimension)
            (then_do (props_getDimensionValue this dimension elem) (\<lambda>v.
               ret (Str (to_string v @ ''px'')))))
         (\<lambda>_. triggerBrowserReflow elem))"

definition handleExiting :: "props \<Rightarrow> handler" where
  "handleExiting this elem =
     then_do (this_dimension this) (\<lambda>dimension.
       style_assign elem (dimension_name dimension) (ret (Str ''0'')))"

subsection \<open>Defaults\<close>

text \<open>
  What the caller wrote, \<open>None\<close> for a prop left out, and the table \<open>defaultProps\<close>.
  React fills a prop that was left out from the table before the component sees it.
\<close>

record attrs =
  attr_in :: "bool option"
  attr_mountOnEnter :: "bool option"
  attr_unmountOnExit :: "bool option"
  attr_transitionAppear :: "bool option"
  attr_timeout :: "int option"
  attr_onEnter :: "handler option"
  attr_onEntering :: "handler option"
  attr_onEntered :: "handler option"
  attr_onExit :: "handler option"
  attr_onExiting :: "handler option"
  attr_onExited :: "handler option"
  attr_dimension :: "dimension_prop option"
  attr_getDimensionValue :: "measure option"
  attr_role :: "string option"
  attr_className :: "string option"
  attr_other :: "string \<rightharpoonup> pval"

record default_props =
  default_in :: bool
  default_timeout :: int
  default_mountOnEnter :: bool
  default_unmountOnExit :: bool
  default_transitionAppear :: bool
  default_dimension :: dimension_prop
  default_getDimensionValue :: measure

definition defaultProps :: default_props where
  "defaultProps =
     \<lparr>default_in = False,
      default_timeout = 300,
      default_mountOnEnter = False,
      default_unmountOnExit = False,
      default_transitionAppear = False,
      default_dimension = DimensionValue Height,
      default_getDimensionValue = getDimensionValue\<rparr>"

definition or_default :: "'a option \<Rightarrow> 'a \<Rightarrow> 'a" where
  "or_default x d = (case x of None \<Rightarrow> d | Some v \<Rightarrow> v)"

definition resolve_props :: "attrs \<Rightarrow> props" where
  "resolve_props a =
     \<lparr>props_in = or_default (attr_in a) (default_in defaultProps),
      props_mountOnEnter = or_default (attr_mountOnEnter a) (default_mountOnEnter defaultProps),
      props_unmountOnExit = or_default (attr_unmountOnExit a) (default_unmountOnExit defaultProps),
      props_transitionAppear =
        or_default (attr_transitionAppear a) (default_transitionAppear defaultProps),
      props_timeout = or_default (attr_timeout a) (default_timeout defaultProps),
      props_onEnter = attr_onEnter a,
      props_onEntering = attr_onEntering a,
      props_onEntered = attr_onEntered a,
      props_onExit = attr_onExit a,
      props_onExiting = attr_onExiting a,
      props_onExited = attr_onExited a,
      props_dimension = or_default (attr_dimension a) (default_dimension defaultProps),
      props_getDimensionValue =
        or_default (attr_getDimensionValue a) (default_getDimensionValue defaultProps),
      props_role = attr_role a,
      props_className = attr_className a,
      props_other = attr_other a\<rparr>"

subsection \<open>render\<close>

text \<open>
  \<open>this.props\<close> as the object \<open>render\<close> takes apart: a declared prop under its name when
  it has a value, every other key from \<open>props_other\<close>.
\<close>

definition props_obj :: "props \<Rightarrow> string \<rightharpoonup> pval" where
  "props_obj p k =
     (if k = ''in'' then Some (PBool (props_in p))
      else if k = ''mountOnEnter'' then Some (PBool (props_mountOnEnter p))
      else if k = ''unmountOnExit'' then Some (PBool (props_unmountOnExit p))
      else if k = ''transitionAppear'' then Some (PBool (props_transitionAppear p))
      else if k = ''timeout'' then Some (PNum (props_timeout p))
      else if k = ''onEnter'' then map_option PFunc (props_onEnter p)
      else if k = ''onEntering'' then map_option PFunc (props_onEntering p)
      else if k = ''onEntered'' then map_option PFunc (props_onEntered p)
      else if k = ''onExit'' then map_option PFunc (props_onExit p)
      else if k = ''onExiting'' then map_option PFunc (props_onExiting p)
      else if k = ''onExited'' then map_option PFunc (props_onExited p)
      else if k = ''dimension'' then Some (PDimension (props_dimension p))
      else if k = ''getDimensionValue'' then Some (PMeasure (props_getDimensionValue p))
      else if k = ''role'' then map_option PStr (props_role p)
      else if k = ''className'' then map_option PStr (props_className p)
      else props_other p k)"

text \<open>The test of \<open>c ? a : b\<close>: undefined, null, false, 0 and the empty string are falsy.\<close>

fun truthy :: "pval option \<Rightarrow> bool" where
  "truthy None = False"
| "truthy (Some PNull) = False"
| "truthy (Some (PBool b)) = b"
| "truthy (Some (PNum n)) = (n \<noteq> 0)"
| "truthy (Some (PStr s)) = (s \<noteq> [])"
| "truthy (Some (PFunc f)) = True"
| "truthy (Some (PDimension d)) = True"
| "truthy (Some (PMeasure m)) = True"

text \<open>
  \<open>classNames(className, classes)\<close> of the classnames package: the class name, when it is
  not empty, and the keys of \<open>classes\<close> whose flag is true, joined by single spaces.
\<close>

fun join_space :: "string list \<Rightarrow> string" where
  "join_space [] = []"
| "join_space [x] = x"
| "join_space (x # y # ys) = x @ '' '' @ join_space (y # ys)"

definition classNames :: "string option \<Rightarrow> (string \<times> bool) list \<Rightarrow> string" where
  "classNames className classes =
     join_space
       ((case className of None \<Rightarrow> [] | Some s \<Rightarrow> if s = [] then [] else [s])
        @ map fst (filter snd classes))"

text \<open>
  Modelled from the spec: utils/createChainedFunction is not under src/. The spec:
  "Chained callback: an ordered pair (internal handler, optional external handler)
  invoked in sequence; absence of the external handler is a no-op continuation, not an
  error", the external one "invoked after the internal action in the same call, with the
  same arguments"; a handler that throws ends the call.
\<close>

definition createChainedFunction :: "handler \<Rightarrow> handler option \<Rightarrow> handler" where
  "createChainedFunction f g =
     (case g of
        None \<Rightarrow> f
      | Some g' \<Rightarrow> (\<lambda>elem. then_do (f elem) (\<lambda>_. g' elem)))"

text \<open>
  \<open>render\<close> returns a Transition element; the model returns the props it is given. The
  spread \<open>{...props}\<close> comes first, so the attributes written after it win.
\<close>

definition render :: "props \<Rightarrow> (string \<rightharpoonup> pval) js" where
  "render this =
     (let onEnter = props_onEnter this;
          onEntering = props_onEntering this;
          onEntered = props_onEntered this;
          onExit = props_onExit this;
          onExiting = props_onExiting this;
          className = props_className this;
          props0 = props_obj this |`
            (- {''onEnter'', ''onEntering'', ''onEntered'', ''onExit'', ''onExiting'',
                ''className''});
          props1 = props0(''dimension'' := None);
          props2 = props1(''getDimensionValue'' := None);
          handleEnter' = createChainedFunction (handleEnter this) onEnter;
          handleEntering' = createChainedFunction (handleEntering this) onEntering;
          handleEntered' = createChainedFunction (handleEntered this) onEntered;
          handleExit' = createChainedFunction (handleExit this) onExit;
          handleExiting' = createChainedFunction (handleExiting this) onExiting
      in then_do (this_dimension this) (\<lambda>d.
           let classes = [(''width'', d = Width)]
           in ret (props2
                (''aria-expanded'' := (if truthy (props2 ''role'') then props2 ''in'' else Some PNull),
                 ''className'' \<mapsto> PStr (classNames className classes),
                 ''exitedClassName'' \<mapsto> PStr ''collapse'',
                 ''exitingClassName'' \<mapsto> PStr ''collapsing'',
                 ''enteredClassName'' \<mapsto> PStr ''collapse in'',
                 ''enteringClassName'' \<mapsto> PStr ''collapsing'',
                 ''onEnter'' \<mapsto> PFunc handleEnter',
                 ''onEntering'' \<mapsto> PFunc handleEntering',
                 ''onEntered'' \<mapsto> PFunc handleEntered',
                 ''onExit'' \<mapsto> PFunc handleExit',
                 ''onExiting'' \<mapsto> PFunc handleExiting'))))"

subsection \<open>Vocabulary of the properties\<close>

text \<open>The five phases, the key each callback is passed under, the component's handler
  for the phase and the caller's.\<close>

datatype phase = Enter | Entering | Entered | Exit | Exiting

fun phase_key :: "phase \<Rightarrow> string" where
  "phase_key Enter = ''onEnter''"
| "phase_key Entering = ''onEntering''"
| "phase_key Entered = ''onEntered''"
| "phase_key Exit = ''onExit''"
| "phase_key Exiting = ''onExiting''"

fun internal_handler :: "phase \<Rightarrow> props \<Rightarrow> handler" where
  "internal_handler Enter = handleEnter"
| "internal_handler Entering = handleEntering"
| "internal_handler Entered = handleEntered"
| "internal_handler Exit = handleExit"
| "internal_handler Exiting = handleExiting"

fun user_handler :: "phase \<Rightarrow> props \<Rightarrow> handler option" where
  "user_handler Enter = props_onEnter"
| "user_handler Entering = props_onEntering"
| "user_handler Entered = props_onEntered"
| "user_handler Exit = props_onExit"
| "user_handler Exiting = props_onExiting"

text \<open>The laid-out size and the scrollable size of a node along a dimension.\<close>

fun offset_extent :: "dimension \<Rightarrow> element \<Rightarrow> int" where
  "offset_extent Height e = offsetHeight e"
| "offset_extent Width e = offsetWidth e"

fun scroll_extent :: "dimension \<Rightarrow> element \<Rightarrow> int" where
  "scroll_extent Height e = scrollHeight e"
| "scroll_extent Width e = scrollWidth e"

text \<open>One prop of what \<open>render\<close> returns.\<close>

definition rendered_prop :: "props \<Rightarrow> world \<Rightarrow> string \<Rightarrow> error + pval option" where
  "rendered_prop p w k = (case render p w of Inl e \<Rightarrow> Inl e | Inr (out, _) \<Rightarrow> Inr (out k))"

text \<open>The keys \<open>render\<close> takes out of the rest object or writes itself.\<close>

definition managed_keys :: "string set" where
  "managed_keys =
     {''onEnter'', ''onEntering'', ''onEntered'', ''onExit'', ''onExiting'', ''className'',
      ''dimension'', ''getDimensionValue'', ''aria-expanded'', ''exitedClassName'',
      ''exitingClassName'', ''enteredClassName'', ''enteringClassName''}"

subsection \<open>Example inputs\<close>

text \<open>The node of the spec's scenarios: 40 high with margins of 4 and 6 pixels.\<close>

definition example_element :: element where
  "example_element =
     \<lparr>offsetHeight = 40, offsetWidth = 100, scrollHeight = 120, scrollWidth = 300,
      style = Map.empty,
      computed = [''marginTop'' \<mapsto> ''4px'', ''marginBottom'' \<mapsto> ''6px'',
                  ''marginLeft'' \<mapsto> ''10px'', ''marginRight'' \<mapsto> ''0px'']\<rparr>"

definition example_world :: world where
  "example_world = \<lparr>nodes = (\<lambda>_. example_element), trace = [], env = Map.empty\<rparr>"

text \<open>The same node with no top margin reported.\<close>

definition bare_world :: world where
  "bare_world =
     \<lparr>nodes = (\<lambda>_. example_element\<lparr>computed := [''marginBottom'' \<mapsto> ''6px'']\<rparr>),
      trace = [], env = Map.empty\<rparr>"

definition no_attrs :: attrs where
  "no_attrs =
     \<lparr>attr_in = None, attr_mountOnEnter = None, attr_unmountOnExit = None,
      attr_transitionAppear = None, attr_timeout = None,
      attr_onEnter = None, attr_onEntering = None, attr_onEntered = None,
      attr_onExit = None, attr_onExiting = None, attr_onExited = None,
      attr_dimension = None, attr_getDimensionValue = None,
      attr_role = None, attr_className = None, attr_other = Map.empty\<rparr>"

definition plain_props :: props where
  "plain_props = resolve_props no_attrs"

definition width_props :: props where
  "width_props = resolve_props (no_attrs\<lparr>attr_dimension := Some (DimensionValue Width)\<rparr>)"

text \<open>A dimension chosen by the caller from the viewport each time it is asked.\<close>

definition by_viewport :: "dimension js" where
  "by_viewport w =
     Inr (case env w ''viewport'' of
            None \<Rightarrow> Height
          | Some n \<Rightarrow> if n < 768 then Height else Width, w)"

definition viewport_props :: props where
  "viewport_props =
     resolve_props (no_attrs\<lparr>attr_dimension := Some (DimensionFunction by_viewport)\<rparr>)"

definition wide_world :: world where
  "wide_world = example_world\<lparr>env := [''viewport'' \<mapsto> 1024]\<rparr>"

text \<open>A caller's handler that records in \<open>env\<close> whether the height was already set.\<close>

definition note_height :: handler where
  "note_height elem w =
     (case elem of
        None \<Rightarrow> Inl (Thrown ''no node'')
      | Some r \<Rightarrow>
          Inr ((), w\<lparr>env := (env w)(''seen'' \<mapsto>
                 (if style (nodes w r) ''height'' = Some (Str ''0'') then 1 else 0))\<rparr>))"

definition noting_props :: props where
  "noting_props = resolve_props (no_attrs\<lparr>attr_onEnter := Some note_height\<rparr>)"

definition tab_props :: props where
  "tab_props = resolve_props (no_attrs\<lparr>attr_role := Some ''tab'', attr_in := Some True\<rparr>)"

definition empty_role_props :: props where
  "empty_role_props = resolve_props (no_attrs\<lparr>attr_role := Some [], attr_in := Some True\<rparr>)"

definition panel_props :: props where
  "panel_props =
     resolve_props (no_attrs\<lparr>attr_dimension := Some (DimensionValue Width),
       attr_className := Some ''panel'',
       attr_other := [''id'' \<mapsto> PStr ''menu'', ''exitedClassName'' \<mapsto> PStr ''mine'']\<rparr>)"

section \<open>Properties\<close>

subsection \<open>Auxiliary facts\<close>

lemma offset_prop:
  "element_prop e (''offset'' @ capitalize (dimension_name d)) = Number (Num (offset_extent d e))"
  by (cases d) (simp_all add: element_prop_def upper_char_def)

lemma scroll_prop:
  "element_prop e (''scroll'' @ capitalize (dimension_name d)) = Number (Num (scroll_extent d e))"
  by (cases d) (simp_all add: element_prop_def upper_char_def)

text \<open>What the default calculator returns on a node, and what it reads on the way.\<close>

lemma getDimensionValue_node:
  "getDimensionValue d (Some r) w =
     Inr (js_plus (js_plus (Number (Num (offset_extent d (nodes w r))))
                    (Number (parseInt (css_value (nodes w r) (MARGINS d ! 0)))))
            (Number (parseInt (css_value (nodes w r) (MARGINS d ! 1)))),
          w\<lparr>trace := trace w @ [Get r (''offset'' @ capitalize (dimension_name d)),
                                 Css r (MARGINS d ! 0), Css r (MARGINS d ! 1)]\<rparr>)"
  using offset_prop [of "nodes w r" d]
  by (simp add: getDimensionValue_def then_do_def elem_get_def css_def ret_def Let_def)

lemma style_put_style:
  "style (nodes (style_put r key v w) r') k =
     (if r' = r \<and> k = key then Some v else style (nodes w r') k)"
  by (simp add: style_put_def)

lemma style_put_trace: "trace (style_put r key v w) = trace w @ [Put r key v]"
  by (simp add: style_put_def)

lemmas parse_defs =
  parseInt_def is_digit_def digit_chars_def digits_val_def digit_val_def is_white_space_def

lemmas plain_defs =
  resolve_props_def no_attrs_def or_default_def defaultProps_def

subsection \<open>The collapse-time extent\<close>

text \<open>
  C1. On a node whose two margins along the resolved dimension parse to the integers
  \<open>m1\<close> and \<open>m2\<close>, the default calculator returns the offset extent plus \<open>m1\<close> plus \<open>m2\<close>,
  and the exit handler stores that sum, printed in decimal and followed by \<open>px\<close>, as the
  inline style of the dimension.
\<close>

theorem collapse_extent_sum:
  assumes "this_dimension p w0 = Inr (d, w)"
    and "props_getDimensionValue p = getDimensionValue"
    and "parseInt (css_value (nodes w r) (MARGINS d ! 0)) = Num m1"
    and "parseInt (css_value (nodes w r) (MARGINS d ! 1)) = Num m2"
  shows "(\<exists>w1. getDimensionValue d (Some r) w =
            Inr (Number (Num (offset_extent d (nodes w r) + m1 + m2)), w1))
       \<and> (\<exists>w'. handleExit p (Some r) w0 = Inr ((), w')
            \<and> style (nodes w' r) (dimension_name d) =
                Some (Str (show_int (offset_extent d (nodes w r) + m1 + m2) @ ''px'')))"
proof -
  let ?sum = "offset_extent d (nodes w r) + m1 + m2"
  let ?w1 = "w\<lparr>trace := trace w @ [Get r (''offset'' @ capitalize (dimension_name d)),
                                   Css r (MARGINS d ! 0), Css r (MARGINS d ! 1)]\<rparr>"
  let ?px = "Str (show_int ?sum @ ''px'')"
  have g: "getDimensionValue d (Some r) w = Inr (Number (Num ?sum), ?w1)"
    using assms(3,4) by (simp add: getDimensionValue_node)
  have "handleExit p (Some r) w0 =
          then_do (style_assign (Some r) (dimension_name d)
                    (then_do (getDimensionValue d (Some r))
                       (\<lambda>v. ret (Str (to_string v @ ''px'')))))
                  (\<lambda>_. triggerBrowserReflow (Some r)) w"
    using assms(1,2) by (simp add: handleExit_def then_do_def)
  also have "\<dots> = Inr ((), (style_put r (dimension_name d) ?px ?w1)
                   \<lparr>trace := trace ?w1 @ [Put r (dimension_name d) ?px, Get r ''offsetHeight'']\<rparr>)"
    using g
    by (simp add: then_do_def style_assign_def ret_def triggerBrowserReflow_def elem_get_def
        style_put_trace)
  finally have h: "handleExit p (Some r) w0 =
      Inr ((), (style_put r (dimension_name d) ?px ?w1)
                 \<lparr>trace := trace ?w1 @ [Put r (dimension_name d) ?px, Get r ''offsetHeight'']\<rparr>)" .
  show ?thesis using g h by (simp add: style_put_style)
qed

theorem collapse_extent_sum_witness:
  "this_dimension plain_props example_world = Inr (Height, example_world)
   \<and> props_getDimensionValue plain_props = getDimensionValue
   \<and> parseInt (css_value (nodes example_world 0) (MARGINS Height ! 0)) = Num 4
   \<and> parseInt (css_value (nodes example_world 0) (MARGINS Height ! 1)) = Num 6
   \<and> (\<exists>w'. handleExit plain_props (Some 0) example_world = Inr ((), w')
          \<and> style (nodes w' 0) ''height'' = Some (Str ''50px''))"
proof -
  have a: "this_dimension plain_props example_world = Inr (Height, example_world)"
    by (simp add: this_dimension_def plain_props_def plain_defs ret_def)
  have b: "props_getDimensionValue plain_props = getDimensionValue"
    by (simp add: plain_props_def plain_defs)
  have c: "parseInt (css_value (nodes example_world 0) (MARGINS Height ! 0)) = Num 4"
    by (simp add: example_world_def example_element_def css_value_def parse_defs)
  have d: "parseInt (css_value (nodes example_world 0) (MARGINS Height ! 1)) = Num 6"
    by (simp add: example_world_def example_element_def css_value_def parse_defs)
  have e: "show_int (offset_extent Height (nodes example_world 0) + 4 + 6) = ''50''"
    by (simp add: example_world_def example_element_def show_int_def show_nat.simps
        digit_chars_def)
  show ?thesis
    using collapse_extent_sum [OF a b c d] a b c d e by simp
qed

text \<open>The handlers on a node, once the dimension is resolved.\<close>

lemma handleEnter_node:
  "this_dimension p w0 = Inr (d, w) \<Longrightarrow>
   handleEnter p (Some r) w0 = Inr ((), style_put r (dimension_name d) (Str ''0'') w)"
  by (simp add: handleEnter_def then_do_def style_assign_def ret_def)

lemma handleEntered_node:
  "this_dimension p w0 = Inr (d, w) \<Longrightarrow>
   handleEntered p (Some r) w0 = Inr ((), style_put r (dimension_name d) Null w)"
  by (simp add: handleEntered_def then_do_def style_assign_def ret_def)

lemma handleExiting_node:
  "this_dimension p w0 = Inr (d, w) \<Longrightarrow>
   handleExiting p (Some r) w0 = Inr ((), style_put r (dimension_name d) (Str ''0'') w)"
  by (simp add: handleExiting_def then_do_def style_assign_def ret_def)

lemma handleEntering_node:
  "this_dimension p w0 = Inr (d, w) \<Longrightarrow>
   handleEntering p (Some r) w0 =
     Inr ((), style_put r (dimension_name d)
                (Str (show_int (scroll_extent d (nodes w r)) @ ''px''))
                (w\<lparr>trace := trace w @ [Get r (''scroll'' @ capitalize (dimension_name d))]\<rparr>))"
  using scroll_prop [of "nodes w r" d]
  by (simp add: handleEntering_def then_do_def style_assign_def ret_def
      this_getScrollDimensionValue_def elem_get_def)

lemma handleExit_node:
  "this_dimension p w0 = Inr (d, w1) \<Longrightarrow>
   props_getDimensionValue p d (Some r) w1 = Inr (v, w2) \<Longrightarrow>
   handleExit p (Some r) w0 =
     Inr ((), (style_put r (dimension_name d) (Str (to_string v @ ''px'')) w2)
                \<lparr>trace := trace w2 @ [Put r (dimension_name d) (Str (to_string v @ ''px'')),
                                      Get r ''offsetHeight'']\<rparr>)"
  by (simp add: handleExit_def then_do_def style_assign_def ret_def triggerBrowserReflow_def
      elem_get_def style_put_trace)

lemma triggerBrowserReflow_node:
  "triggerBrowserReflow (Some r) w = Inr ((), w\<lparr>trace := trace w @ [Get r ''offsetHeight'']\<rparr>)"
  by (simp add: triggerBrowserReflow_def then_do_def elem_get_def ret_def)

lemma plain_dimension: "this_dimension plain_props w = Inr (Height, w)"
  by (simp add: this_dimension_def plain_props_def plain_defs ret_def)

lemma width_dimension: "this_dimension width_props w = Inr (Width, w)"
  by (simp add: this_dimension_def width_props_def plain_defs ret_def)

text \<open>
  C2. The claim is that a margin with no leading integer counts as 0. It does not: the
  node of \<open>bare_world\<close> reports no top margin, \<open>parseInt\<close> gives NaN for it, and the sum is
  NaN, not 40 + 0 + 6.
\<close>

theorem missing_margin_counterexample:
  "parseInt (css_value (nodes bare_world 0) (MARGINS Height ! 0)) = NaN
   \<and> getDimensionValue Height (Some 0) bare_world =
       Inr (Number NaN,
            bare_world\<lparr>trace := [Get 0 ''offsetHeight'', Css 0 ''marginTop'',
                                  Css 0 ''marginBottom'']\<rparr>)
   \<and> Number NaN \<noteq> Number (Num (40 + 0 + 6))"
proof -
  have a: "parseInt (css_value (nodes bare_world 0) (MARGINS Height ! 0)) = NaN"
    by (simp add: bare_world_def example_element_def css_value_def parse_defs)
  have b: "parseInt (css_value (nodes bare_world 0) (MARGINS Height ! 1)) = Num 6"
    by (simp add: bare_world_def example_element_def css_value_def parse_defs)
  have c: "trace bare_world = []"
    by (simp add: bare_world_def)
  have "getDimensionValue Height (Some 0) bare_world =
       Inr (Number NaN,
            bare_world\<lparr>trace := [Get 0 ''offsetHeight'', Css 0 ''marginTop'',
                                  Css 0 ''marginBottom'']\<rparr>)"
    unfolding getDimensionValue_node a b c by (simp add: upper_char_def)
  with a show ?thesis by simp
qed

text \<open>
  C2, amended. When a margin along the dimension has no leading integer, the default
  calculator still returns on a node, without an error, and what it returns is NaN: the
  margin is not replaced by 0.
\<close>

theorem unparsable_margin_gives_NaN:
  assumes "parseInt (css_value (nodes w r) (MARGINS d ! 0)) = NaN
         \<or> parseInt (css_value (nodes w r) (MARGINS d ! 1)) = NaN"
  shows "\<exists>w'. getDimensionValue d (Some r) w = Inr (Number NaN, w')"
proof -
  have "add_num (add_num (Num (offset_extent d (nodes w r)))
                  (parseInt (css_value (nodes w r) (MARGINS d ! 0))))
                (parseInt (css_value (nodes w r) (MARGINS d ! 1))) = NaN"
    using assms
    by (cases "parseInt (css_value (nodes w r) (MARGINS d ! 0))";
        cases "parseInt (css_value (nodes w r) (MARGINS d ! 1))") simp_all
  then show ?thesis
    by (simp add: getDimensionValue_node)
qed

theorem unparsable_margin_gives_NaN_witness:
  "parseInt ''auto'' = NaN
   \<and> (\<exists>w'. getDimensionValue Height (Some 0)
              (example_world\<lparr>nodes := (\<lambda>_. example_element\<lparr>computed :=
                 [''marginTop'' \<mapsto> ''auto'', ''marginBottom'' \<mapsto> ''6px'']\<rparr>)\<rparr>)
            = Inr (Number NaN, w'))"
proof -
  let ?w = "example_world\<lparr>nodes := (\<lambda>_. example_element\<lparr>computed :=
              [''marginTop'' \<mapsto> ''auto'', ''marginBottom'' \<mapsto> ''6px'']\<rparr>)\<rparr>"
  have n: "parseInt ''auto'' = NaN"
    by (simp add: parse_defs)
  have a: "parseInt (css_value (nodes ?w 0) (MARGINS Height ! 0)) = NaN"
    by (simp add: css_value_def parse_defs)
  show ?thesis
    using unparsable_margin_gives_NaN [of ?w 0 Height] a n by simp
qed

subsection \<open>The expand cycle\<close>

text \<open>
  C3. In any world where the dimension resolves to \<open>d\<close>, the enter handler leaves the
  inline style of \<open>d\<close> at the string 0, the entering handler at the scroll extent along
  \<open>d\<close> followed by \<open>px\<close>, and the entered handler at null.
\<close>

theorem expand_cycle_styles:
  assumes "this_dimension p w0 = Inr (d, w)"
  shows "(\<exists>w'. handleEnter p (Some r) w0 = Inr ((), w')
            \<and> style (nodes w' r) (dimension_name d) = Some (Str ''0''))
       \<and> (\<exists>w'. handleEntering p (Some r) w0 = Inr ((), w')
            \<and> style (nodes w' r) (dimension_name d) =
                Some (Str (show_int (scroll_extent d (nodes w r)) @ ''px'')))
       \<and> (\<exists>w'. handleEntered p (Some r) w0 = Inr ((), w')
            \<and> style (nodes w' r) (dimension_name d) = Some Null)"
proof (intro conjI)
  show "\<exists>w'. handleEnter p (Some r) w0 = Inr ((), w')
          \<and> style (nodes w' r) (dimension_name d) = Some (Str ''0'')"
    using handleEnter_node [OF assms] by (simp add: style_put_style)
  show "\<exists>w'. handleEntering p (Some r) w0 = Inr ((), w')
          \<and> style (nodes w' r) (dimension_name d) =
              Some (Str (show_int (scroll_extent d (nodes w r)) @ ''px''))"
    using handleEntering_node [OF assms] by (simp add: style_put_style)
  show "\<exists>w'. handleEntered p (Some r) w0 = Inr ((), w')
          \<and> style (nodes w' r) (dimension_name d) = Some Null"
    using handleEntered_node [OF assms] by (simp add: style_put_style)
qed

theorem expand_cycle_styles_witness:
  "this_dimension plain_props example_world = Inr (Height, example_world)
   \<and> (\<exists>w'. handleEnter plain_props (Some 0) example_world = Inr ((), w')
          \<and> style (nodes w' 0) ''height'' = Some (Str ''0''))
   \<and> (\<exists>w'. handleEntering plain_props (Some 0) example_world = Inr ((), w')
          \<and> style (nodes w' 0) ''height'' = Some (Str ''120px''))
   \<and> (\<exists>w'. handleEntered plain_props (Some 0) example_world = Inr ((), w')
          \<and> style (nodes w' 0) ''height'' = Some Null)"
proof -
  have s: "show_int (scroll_extent Height (nodes example_world 0)) = ''120''"
    by (simp add: example_world_def example_element_def show_int_def show_nat.simps
        digit_chars_def)
  show ?thesis
    using expand_cycle_styles [of plain_props example_world Height example_world 0] s
    by (simp add: plain_dimension)
qed

subsection \<open>The exit phase\<close>

text \<open>
  C4. When the exit handler runs on a node and the dimension and the extent are
  obtained, the handler returns, and the last two accesses it makes are the write of
  the inline style and then the read of offsetHeight, in this order. The read itself
  returns on every node. The handler fails only where the dimension function or the
  extent calculator throws or the node is null, so never at the read.
\<close>

theorem exit_write_before_read:
  "(this_dimension p w0 = Inr (d, w1) \<longrightarrow>
    props_getDimensionValue p d (Some r) w1 = Inr (v, w2) \<longrightarrow>
      (\<exists>w'. handleExit p (Some r) w0 = Inr ((), w')
         \<and> trace w' = trace w2 @ [Put r (dimension_name d) (Str (to_string v @ ''px'')),
                                   Get r ''offsetHeight'']))
   \<and> (\<exists>w'. triggerBrowserReflow (Some r) w = Inr ((), w'))
   \<and> (handleExit p elem w0 = Inl e \<longrightarrow>
        this_dimension p w0 = Inl e
        \<or> (elem = None \<and> e = TypeError)
        \<or> (\<exists>d' w'. this_dimension p w0 = Inr (d', w')
              \<and> props_getDimensionValue p d' elem w' = Inl e))"
proof (intro conjI impI)
  assume "this_dimension p w0 = Inr (d, w1)"
    and "props_getDimensionValue p d (Some r) w1 = Inr (v, w2)"
  then show "\<exists>w'. handleExit p (Some r) w0 = Inr ((), w')
         \<and> trace w' = trace w2 @ [Put r (dimension_name d) (Str (to_string v @ ''px'')),
                                   Get r ''offsetHeight'']"
    by (simp add: handleExit_node)
next
  show "\<exists>w'. triggerBrowserReflow (Some r) w = Inr ((), w')"
    by (simp add: triggerBrowserReflow_node)
next
  assume f: "handleExit p elem w0 = Inl e"
  show "this_dimension p w0 = Inl e
        \<or> (elem = None \<and> e = TypeError)
        \<or> (\<exists>d' w'. this_dimension p w0 = Inr (d', w')
              \<and> props_getDimensionValue p d' elem w' = Inl e)"
  proof (cases "this_dimension p w0")
    case (Inl e')
    with f show ?thesis
      by (simp add: handleExit_def then_do_def)
  next
    case (Inr dw)
    obtain d' w' where dw: "dw = (d', w')" by (cases dw)
    show ?thesis
    proof (cases elem)
      case None
      with f Inr dw show ?thesis
        by (simp add: handleExit_def then_do_def style_assign_def)
    next
      case (Some r')
      show ?thesis
      proof (cases "props_getDimensionValue p d' (Some r') w'")
        case (Inl e')
        with f Inr dw Some show ?thesis
          by (simp add: handleExit_def then_do_def style_assign_def)
      next
        case (Inr vw)
        obtain v' w'' where "vw = (v', w'')" by (cases vw)
        with f \<open>this_dimension p w0 = Inr dw\<close> dw Some Inr show ?thesis
          by (simp add: handleExit_node)
      qed
    qed
  qed
qed

theorem exit_write_before_read_witness:
  "this_dimension plain_props example_world = Inr (Height, example_world)
   \<and> (\<exists>w2. props_getDimensionValue plain_props Height (Some 0) example_world =
              Inr (Number (Num 50), w2))
   \<and> (\<exists>w'. handleExit plain_props (Some 0) example_world = Inr ((), w')
         \<and> trace w' = [Get 0 ''offsetHeight'', Css 0 ''marginTop'', Css 0 ''marginBottom'',
                        Put 0 ''height'' (Str ''50px''), Get 0 ''offsetHeight''])
   \<and> handleExit plain_props None example_world = Inl TypeError"
proof -
  let ?w2 = "example_world\<lparr>trace := [Get 0 ''offsetHeight'', Css 0 ''marginTop'',
                                     Css 0 ''marginBottom'']\<rparr>"
  have "getDimensionValue Height (Some 0) example_world = Inr (Number (Num 50), ?w2)"
    by (simp add: getDimensionValue_node example_world_def example_element_def
        css_value_def parse_defs upper_char_def)
  then have g: "props_getDimensionValue plain_props Height (Some 0) example_world =
             Inr (Number (Num 50), ?w2)"
    by (simp add: plain_props_def plain_defs)
  have s: "to_string (Number (Num 50)) = ''50''"
    by (simp add: show_int_def show_nat.simps digit_chars_def)
  have n: "handleExit plain_props None example_world = Inl TypeError"
    by (simp add: handleExit_def then_do_def plain_dimension style_assign_def)
  show ?thesis
    using exit_write_before_read
      [of plain_props example_world Height example_world 0 "Number (Num 50)" ?w2]
      plain_dimension g s n
    by simp
qed

text \<open>
  C9. Whatever the dimension, the one access the exit handler makes after the write of
  the inline style is a read of offsetHeight of the node: with the dimension width the
  extent is measured by reading offsetWidth before the write, and the read that follows
  the write is still offsetHeight.
\<close>

theorem reflow_reads_offsetHeight:
  assumes "this_dimension p w0 = Inr (d, w1)"
    and "props_getDimensionValue p d (Some r) w1 = Inr (v, w2)"
  shows "\<exists>w'. handleExit p (Some r) w0 = Inr ((), w')
           \<and> take (Suc (length (trace w2))) (trace w') =
               trace w2 @ [Put r (dimension_name d) (Str (to_string v @ ''px''))]
           \<and> drop (Suc (length (trace w2))) (trace w') = [Get r ''offsetHeight'']"
  using handleExit_node [OF assms] by simp

theorem reflow_reads_offsetHeight_witness:
  "this_dimension width_props example_world = Inr (Width, example_world)
   \<and> (\<exists>w'. handleExit width_props (Some 0) example_world = Inr ((), w')
         \<and> trace w' = [Get 0 ''offsetWidth'', Css 0 ''marginLeft'', Css 0 ''marginRight'',
                        Put 0 ''width'' (Str ''110px''), Get 0 ''offsetHeight''])"
proof -
  let ?w2 = "example_world\<lparr>trace := [Get 0 ''offsetWidth'', Css 0 ''marginLeft'',
                                     Css 0 ''marginRight'']\<rparr>"
  have "getDimensionValue Width (Some 0) example_world = Inr (Number (Num 110), ?w2)"
    by (simp add: getDimensionValue_node example_world_def example_element_def
        css_value_def parse_defs upper_char_def)
  then have g: "props_getDimensionValue width_props Width (Some 0) example_world =
             Inr (Number (Num 110), ?w2)"
    by (simp add: width_props_def plain_defs)
  have s: "to_string (Number (Num 110)) = ''110''"
    by (simp add: show_int_def show_nat.simps digit_chars_def)
  obtain w' where h: "handleExit width_props (Some 0) example_world = Inr ((), w')"
    and t: "take (Suc (length (trace ?w2))) (trace w') =
              trace ?w2 @ [Put 0 (dimension_name Width) (Str (to_string (Number (Num 110)) @ ''px''))]"
    and dr: "drop (Suc (length (trace ?w2))) (trace w') = [Get 0 ''offsetHeight'']"
    using reflow_reads_offsetHeight [OF width_dimension g] by blast
  have "trace w' = take (Suc (length (trace ?w2))) (trace w') @ drop (Suc (length (trace ?w2))) (trace w')"
    by simp
  then have "trace w' = [Get 0 ''offsetWidth'', Css 0 ''marginLeft'', Css 0 ''marginRight'',
                        Put 0 ''width'' (Str ''110px''), Get 0 ''offsetHeight'']"
    unfolding t dr using s by simp
  with h show ?thesis
    by (simp add: width_dimension)
qed

subsection \<open>What render passes to the delegate\<close>

lemma render_dimension:
  "render p w = Inr (out, w') \<Longrightarrow> \<exists>d. this_dimension p w = Inr (d, w')"
  by (cases "this_dimension p w") (auto simp: render_def Let_def then_do_def ret_def)

lemma render_phase:
  assumes "render p w = Inr (out, w')"
  shows "out (phase_key ph) =
           Some (PFunc (createChainedFunction (internal_handler ph p) (user_handler ph p)))"
proof -
  obtain d where "this_dimension p w = Inr (d, w')"
    using render_dimension [OF assms] by blast
  with assms show ?thesis
    by (cases ph) (auto simp: render_def Let_def then_do_def ret_def)
qed

lemma render_unmanaged:
  assumes "render p w = Inr (out, w')" and "k \<notin> managed_keys"
  shows "out k = props_obj p k"
proof -
  obtain d where "this_dimension p w = Inr (d, w')"
    using render_dimension [OF assms(1)] by blast
  with assms show ?thesis
    by (auto simp: render_def Let_def then_do_def ret_def managed_keys_def restrict_map_def)
qed

lemma render_deleted:
  assumes "render p w = Inr (out, w')"
  shows "out ''dimension'' = None \<and> out ''getDimensionValue'' = None"
proof -
  obtain d where "this_dimension p w = Inr (d, w')"
    using render_dimension [OF assms] by blast
  with assms show ?thesis
    by (auto simp: render_def Let_def then_do_def ret_def)
qed

lemma render_className:
  assumes "this_dimension p w = Inr (d, w')"
  shows "\<exists>out. render p w = Inr (out, w')
           \<and> out ''className'' =
               Some (PStr (classNames (props_className p) [(''width'', d = Width)]))"
  using assms by (simp add: render_def Let_def then_do_def ret_def)

lemma render_aria:
  assumes "render p w = Inr (out, w')"
  shows "out ''aria-expanded'' =
           (if truthy (map_option PStr (props_role p)) then Some (PBool (props_in p))
            else Some PNull)"
proof -
  obtain d where "this_dimension p w = Inr (d, w')"
    using render_dimension [OF assms] by blast
  with assms show ?thesis
    by (auto simp: render_def Let_def then_do_def ret_def restrict_map_def props_obj_def)
qed

lemma render_fixed:
  assumes "render p w = Inr (out, w')"
  shows "out ''exitedClassName'' = Some (PStr ''collapse'')
       \<and> out ''exitingClassName'' = Some (PStr ''collapsing'')
       \<and> out ''enteredClassName'' = Some (PStr ''collapse in'')
       \<and> out ''enteringClassName'' = Some (PStr ''collapsing'')"
proof -
  obtain d where "this_dimension p w = Inr (d, w')"
    using render_dimension [OF assms] by (elim exE)
  with assms show ?thesis
    by (auto simp: render_def Let_def then_do_def ret_def)
qed

lemma rendered_prop_Inr:
  "render p w = Inr (out, w') \<Longrightarrow> rendered_prop p w k = Inr (out k)"
  by (simp add: rendered_prop_def)

lemma chained_call:
  "createChainedFunction f g elem s =
     (case f elem s of
        Inl e \<Rightarrow> Inl e
      | Inr (u, s1) \<Rightarrow> (case g of None \<Rightarrow> Inr ((), s1) | Some g' \<Rightarrow> g' elem s1))"
  by (cases g; cases "f elem s") (auto simp: createChainedFunction_def then_do_def)

text \<open>
  C5. Under each of the five keys the delegate receives one callback. Called on a node
  in a world, it runs the component's handler of the phase first; if that throws, the
  call ends there; otherwise the caller's handler of the same phase runs on the same
  node in the world the component's handler left, and where the caller gave none the
  result is that of the component's handler alone.
\<close>

theorem chained_callbacks:
  assumes "render p w = Inr (out, w')"
  shows "\<exists>h. out (phase_key ph) = Some (PFunc h)
           \<and> (\<forall>elem s. h elem s =
                 (case internal_handler ph p elem s of
                    Inl e \<Rightarrow> Inl e
                  | Inr (u, s1) \<Rightarrow>
                      (case user_handler ph p of
                         None \<Rightarrow> Inr ((), s1)
                       | Some g \<Rightarrow> g elem s1)))
           \<and> (user_handler ph p = None \<longrightarrow> h = internal_handler ph p)"
proof -
  let ?h = "createChainedFunction (internal_handler ph p) (user_handler ph p)"
  have a: "out (phase_key ph) = Some (PFunc ?h)"
    using render_phase [OF assms] .
  have b: "\<forall>elem s. ?h elem s =
                 (case internal_handler ph p elem s of
                    Inl e \<Rightarrow> Inl e
                  | Inr (u, s1) \<Rightarrow>
                      (case user_handler ph p of
                         None \<Rightarrow> Inr ((), s1)
                       | Some g \<Rightarrow> g elem s1))"
    by (simp add: chained_call)
  have c: "user_handler ph p = None \<longrightarrow> ?h = internal_handler ph p"
    by (simp add: createChainedFunction_def)
  show ?thesis
    by (rule exI [of _ ?h]) (intro conjI a b c)
qed

lemma plain_render:
  "\<exists>out. render plain_props example_world = Inr (out, example_world)"
  using render_className [OF plain_dimension] by blast

theorem chained_callbacks_witness:
  "\<exists>out h. render noting_props example_world = Inr (out, example_world)
     \<and> out ''onEnter'' = Some (PFunc h)
     \<and> (\<exists>s. h (Some 0) example_world = Inr ((), s)
            \<and> style (nodes s 0) ''height'' = Some (Str ''0'')
            \<and> env s ''seen'' = Some 1)"
proof -
  have d: "this_dimension noting_props example_world = Inr (Height, example_world)"
    by (simp add: this_dimension_def noting_props_def plain_defs ret_def)
  obtain out where r: "render noting_props example_world = Inr (out, example_world)"
    using render_className [OF d] by blast
  obtain h where h: "out (phase_key Enter) = Some (PFunc h)"
    and c: "\<forall>elem s. h elem s =
                 (case internal_handler Enter noting_props elem s of
                    Inl e \<Rightarrow> Inl e
                  | Inr (u, s1) \<Rightarrow>
                      (case user_handler Enter noting_props of
                         None \<Rightarrow> Inr ((), s1)
                       | Some g \<Rightarrow> g elem s1))"
    using chained_callbacks [OF r, of Enter] by blast
  have u: "user_handler Enter noting_props = Some note_height"
    by (simp add: noting_props_def plain_defs)
  have "h (Some 0) example_world =
          note_height (Some 0) (style_put 0 ''height'' (Str ''0'') example_world)"
    using c u handleEnter_node [OF d, of 0] by simp
  then have "\<exists>s. h (Some 0) example_world = Inr ((), s)
            \<and> style (nodes s 0) ''height'' = Some (Str ''0'')
            \<and> env s ''seen'' = Some 1"
    by (simp add: note_height_def style_put_style)
  with r h show ?thesis by auto
qed

text \<open>
  C6. A handler invoked in a world acts on the dimension that \<open>this_dimension\<close> yields
  in that world: the call equals the call with that dimension as a literal, made in the
  world the resolution left; if the resolution throws, so does the handler. A dimension
  given as a function is that function applied to the current world, so nothing is kept
  from an earlier call. With the dimension left out, it resolves to height.
\<close>

theorem dimension_resolved_per_call:
  "(this_dimension p w = Inr (d, w1) \<longrightarrow>
      internal_handler ph p elem w =
        internal_handler ph (p\<lparr>props_dimension := DimensionValue d\<rparr>) elem w1)
   \<and> (this_dimension p w = Inl e \<longrightarrow> internal_handler ph p elem w = Inl e)
   \<and> (props_dimension p = DimensionFunction f \<longrightarrow> this_dimension p w = f w)
   \<and> (attr_dimension a = None \<longrightarrow> this_dimension (resolve_props a) w = Inr (Height, w))"
proof (intro conjI impI)
  assume "this_dimension p w = Inr (d, w1)"
  then show "internal_handler ph p elem w =
        internal_handler ph (p\<lparr>props_dimension := DimensionValue d\<rparr>) elem w1"
    by (cases ph)
      (simp_all add: handleEnter_def handleEntering_def handleEntered_def handleExit_def
        handleExiting_def then_do_def this_dimension_def ret_def)
next
  assume "this_dimension p w = Inl e"
  then show "internal_handler ph p elem w = Inl e"
    by (cases ph)
      (simp_all add: handleEnter_def handleEntering_def handleEntered_def handleExit_def
        handleExiting_def then_do_def)
next
  assume "props_dimension p = DimensionFunction f"
  then show "this_dimension p w = f w"
    by (simp add: this_dimension_def)
next
  assume "attr_dimension a = None"
  then show "this_dimension (resolve_props a) w = Inr (Height, w)"
    by (simp add: this_dimension_def resolve_props_def or_default_def defaultProps_def ret_def)
qed

theorem dimension_resolved_per_call_witness:
  "props_dimension viewport_props = DimensionFunction by_viewport
   \<and> this_dimension viewport_props example_world = Inr (Height, example_world)
   \<and> this_dimension viewport_props wide_world = Inr (Width, wide_world)
   \<and> handleEnter viewport_props (Some 0) example_world =
       Inr ((), style_put 0 ''height'' (Str ''0'') example_world)
   \<and> handleEnter viewport_props (Some 0) wide_world =
       Inr ((), style_put 0 ''width'' (Str ''0'') wide_world)
   \<and> attr_dimension no_attrs = None
   \<and> this_dimension (resolve_props no_attrs) example_world = Inr (Height, example_world)"
proof -
  have f: "props_dimension viewport_props = DimensionFunction by_viewport"
    by (simp add: viewport_props_def plain_defs)
  have a: "this_dimension viewport_props example_world = Inr (Height, example_world)"
    using dimension_resolved_per_call [of viewport_props example_world _ _ _ _ _ by_viewport] f
    by (simp add: by_viewport_def example_world_def)
  have b: "this_dimension viewport_props wide_world = Inr (Width, wide_world)"
    using dimension_resolved_per_call [of viewport_props wide_world _ _ _ _ _ by_viewport] f
    by (simp add: by_viewport_def wide_world_def)
  have l: "this_dimension (viewport_props\<lparr>props_dimension := DimensionValue dd\<rparr>) s = Inr (dd, s)"
    for dd s
    by (simp add: this_dimension_def ret_def)
  have c: "handleEnter viewport_props (Some 0) example_world =
       Inr ((), style_put 0 ''height'' (Str ''0'') example_world)"
    using dimension_resolved_per_call
      [of viewport_props example_world Height example_world Enter "Some 0"] a
      handleEnter_node [OF l [of Height example_world], of 0]
    by simp
  have d: "handleEnter viewport_props (Some 0) wide_world =
       Inr ((), style_put 0 ''width'' (Str ''0'') wide_world)"
    using dimension_resolved_per_call
      [of viewport_props wide_world Width wide_world Enter "Some 0"] b
      handleEnter_node [OF l [of Width wide_world], of 0]
    by simp
  have n: "attr_dimension no_attrs = None"
    by (simp add: no_attrs_def)
  have e: "this_dimension (resolve_props no_attrs) example_world = Inr (Height, example_world)"
    using dimension_resolved_per_call [of _ example_world _ _ _ _ _ _ no_attrs] n by simp
  from f a b c d n e show ?thesis by simp
qed

text \<open>
  C7. The claim is that the flag is emitted exactly when a role is given. A role that is
  the empty string is given, yet it is falsy in the test \<open>props.role ? props.in : null\<close>,
  and the flag is null although \<open>in\<close> is true.
\<close>

theorem empty_role_counterexample:
  "props_role empty_role_props = Some []
   \<and> props_in empty_role_props = True
   \<and> rendered_prop empty_role_props example_world ''aria-expanded'' = Inr (Some PNull)"
proof -
  have d: "this_dimension empty_role_props example_world = Inr (Height, example_world)"
    by (simp add: this_dimension_def empty_role_props_def plain_defs ret_def)
  obtain out where r: "render empty_role_props example_world = Inr (out, example_world)"
    using render_className [OF d] by blast
  have "out ''aria-expanded'' = Some PNull"
    using render_aria [OF r] by (simp add: empty_role_props_def plain_defs)
  then show ?thesis
    using rendered_prop_Inr [OF r, of "''aria-expanded''"]
    by (simp add: empty_role_props_def plain_defs)
qed

text \<open>
  C7, amended. The flag \<open>aria-expanded\<close> carries the boolean \<open>in\<close> exactly when a role is
  given and is not the empty string; with no role, or with the empty string as role,
  it is null, not false.
\<close>

theorem aria_expanded_mirrors_in:
  assumes "render p w = Inr (out, w')"
  shows "out ''aria-expanded'' =
           (if props_role p = None \<or> props_role p = Some [] then Some PNull
            else Some (PBool (props_in p)))"
  using render_aria [OF assms] by (cases "props_role p") auto

theorem aria_expanded_mirrors_in_witness:
  "(\<exists>out. render tab_props example_world = Inr (out, example_world)
      \<and> out ''aria-expanded'' = Some (PBool True))
   \<and> (\<exists>out. render plain_props example_world = Inr (out, example_world)
      \<and> out ''aria-expanded'' = Some PNull)"
proof -
  have d: "this_dimension tab_props example_world = Inr (Height, example_world)"
    by (simp add: this_dimension_def tab_props_def plain_defs ret_def)
  obtain out where r: "render tab_props example_world = Inr (out, example_world)"
    using render_className [OF d] by blast
  have a: "out ''aria-expanded'' = Some (PBool True)"
    using aria_expanded_mirrors_in [OF r] by (simp add: tab_props_def plain_defs)
  obtain out' where r': "render plain_props example_world = Inr (out', example_world)"
    using plain_render by blast
  have b: "out' ''aria-expanded'' = Some PNull"
    using aria_expanded_mirrors_in [OF r'] by (simp add: plain_props_def plain_defs)
  from r a r' b show ?thesis by blast
qed

subsection \<open>The width dimension\<close>

text \<open>
  C8. The class name passed on is built from the flag \<open>width\<close>, which is true exactly
  when the resolved dimension is width; with no class name of the caller the result is
  \<open>width\<close> or empty accordingly. When the dimension is width, a handler leaves the
  inline height of every node as it was, and every style write it adds to the trace is
  a write of the width of the node it was given; for the exit handler with a calculator
  of the caller this is counted from the world the calculator returned, and with the
  default calculator from the world the handler started in.
\<close>

theorem width_axis:
  assumes "this_dimension p w0 = Inr (d, w)"
  shows "(\<exists>out. render p w0 = Inr (out, w)
            \<and> out ''className'' =
                Some (PStr (classNames (props_className p) [(''width'', d = Width)]))
            \<and> (props_className p = None \<longrightarrow>
                 out ''className'' = Some (PStr (if d = Width then ''width'' else []))))
       \<and> (d = Width \<longrightarrow> ph \<noteq> Exit \<longrightarrow>
            (\<exists>w'. internal_handler ph p (Some r) w0 = Inr ((), w')
               \<and> (\<forall>r'. style (nodes w' r') ''height'' = style (nodes w r') ''height'')
               \<and> (\<forall>n k x. Put n k x \<in> set (drop (length (trace w)) (trace w')) \<longrightarrow>
                    n = r \<and> k = ''width'')))
       \<and> (d = Width \<longrightarrow> props_getDimensionValue p Width (Some r) w = Inr (v, w2) \<longrightarrow>
            (\<exists>w'. handleExit p (Some r) w0 = Inr ((), w')
               \<and> (\<forall>r'. style (nodes w' r') ''height'' = style (nodes w2 r') ''height'')
               \<and> (\<forall>n k x. Put n k x \<in> set (drop (length (trace w2)) (trace w')) \<longrightarrow>
                    n = r \<and> k = ''width'')))
       \<and> (d = Width \<longrightarrow> props_getDimensionValue p = getDimensionValue \<longrightarrow>
            (\<exists>w'. handleExit p (Some r) w0 = Inr ((), w')
               \<and> (\<forall>r'. style (nodes w' r') ''height'' = style (nodes w r') ''height'')
               \<and> (\<forall>n k x. Put n k x \<in> set (drop (length (trace w)) (trace w')) \<longrightarrow>
                    n = r \<and> k = ''width'')))"
proof (intro conjI impI)
  obtain out where r: "render p w0 = Inr (out, w)"
    and c: "out ''className'' =
              Some (PStr (classNames (props_className p) [(''width'', d = Width)]))"
    using render_className [OF assms] by blast
  have n: "props_className p = None \<longrightarrow>
          out ''className'' = Some (PStr (if d = Width then ''width'' else []))"
    using c by (simp add: classNames_def)
  show "\<exists>out. render p w0 = Inr (out, w)
            \<and> out ''className'' =
                Some (PStr (classNames (props_className p) [(''width'', d = Width)]))
            \<and> (props_className p = None \<longrightarrow>
                 out ''className'' = Some (PStr (if d = Width then ''width'' else [])))"
    by (rule exI [of _ out]) (intro conjI r c n)
next
  assume d: "d = Width" and ph: "ph \<noteq> Exit"
  have a: "this_dimension p w0 = Inr (Width, w)"
    using assms d by simp
  show "\<exists>w'. internal_handler ph p (Some r) w0 = Inr ((), w')
               \<and> (\<forall>r'. style (nodes w' r') ''height'' = style (nodes w r') ''height'')
               \<and> (\<forall>n k x. Put n k x \<in> set (drop (length (trace w)) (trace w')) \<longrightarrow>
                    n = r \<and> k = ''width'')"
  proof (cases ph)
    case Enter
    then show ?thesis
      using handleEnter_node [OF a, of r] by (simp add: style_put_style style_put_trace)
  next
    case Entering
    then show ?thesis
      using handleEntering_node [OF a, of r]
      by (simp add: style_put_style style_put_trace)
  next
    case Entered
    then show ?thesis
      using handleEntered_node [OF a, of r] by (simp add: style_put_style style_put_trace)
  next
    case Exit
    with ph show ?thesis by simp
  next
    case Exiting
    then show ?thesis
      using handleExiting_node [OF a, of r] by (simp add: style_put_style style_put_trace)
  qed
next
  assume d: "d = Width"
    and g: "props_getDimensionValue p Width (Some r) w = Inr (v, w2)"
  have a: "this_dimension p w0 = Inr (Width, w)"
    using assms d by simp
  show "\<exists>w'. handleExit p (Some r) w0 = Inr ((), w')
               \<and> (\<forall>r'. style (nodes w' r') ''height'' = style (nodes w2 r') ''height'')
               \<and> (\<forall>n k x. Put n k x \<in> set (drop (length (trace w2)) (trace w')) \<longrightarrow>
                    n = r \<and> k = ''width'')"
    using handleExit_node [OF a g] by (simp add: style_put_style)
next
  assume d: "d = Width"
    and g: "props_getDimensionValue p = getDimensionValue"
  let ?w2 = "w\<lparr>trace := trace w @ [Get r (''offset'' @ capitalize (dimension_name Width)),
                                   Css r (MARGINS Width ! 0), Css r (MARGINS Width ! 1)]\<rparr>"
  have a: "this_dimension p w0 = Inr (Width, w)"
    using assms d by simp
  obtain x where m: "props_getDimensionValue p Width (Some r) w = Inr (x, ?w2)"
    using g getDimensionValue_node [of Width r w] by simp
  show "\<exists>w'. handleExit p (Some r) w0 = Inr ((), w')
               \<and> (\<forall>r'. style (nodes w' r') ''height'' = style (nodes w r') ''height'')
               \<and> (\<forall>n k x. Put n k x \<in> set (drop (length (trace w)) (trace w')) \<longrightarrow>
                    n = r \<and> k = ''width'')"
    using handleExit_node [OF a m] by (simp add: style_put_style)
qed

theorem width_axis_witness:
  "this_dimension width_props example_world = Inr (Width, example_world)
   \<and> props_getDimensionValue width_props = getDimensionValue
   \<and> (\<exists>out. render width_props example_world = Inr (out, example_world)
         \<and> out ''className'' = Some (PStr ''width''))
   \<and> (\<exists>w'. handleEntering width_props (Some 0) example_world = Inr ((), w')
         \<and> style (nodes w' 0) ''height'' = None)
   \<and> (\<exists>w'. handleExit width_props (Some 0) example_world = Inr ((), w')
         \<and> style (nodes w' 0) ''height'' = None)"
proof -
  have c: "props_className width_props = None"
    by (simp add: width_props_def plain_defs)
  have g: "props_getDimensionValue width_props = getDimensionValue"
    by (simp add: width_props_def plain_defs)
  have h0: "style (nodes example_world 0) ''height'' = None"
    by (simp add: example_world_def example_element_def)
  have ne: "Entering \<noteq> Exit"
    by simp
  note W = width_axis [of width_props example_world Width example_world Entering 0,
      OF width_dimension]
  from W [THEN conjunct1]
  obtain out where "render width_props example_world = Inr (out, example_world)"
    and "props_className width_props = None \<longrightarrow>
           out ''className'' = Some (PStr (if Width = Width then ''width'' else []))"
    by (elim exE conjE) (rule that)
  then have 1: "\<exists>out. render width_props example_world = Inr (out, example_world)
         \<and> out ''className'' = Some (PStr ''width'')"
    using c by simp
  from W [THEN conjunct2, THEN conjunct1, rule_format, OF refl ne]
  obtain w' where "internal_handler Entering width_props (Some 0) example_world = Inr ((), w')"
    and "\<forall>r'. style (nodes w' r') ''height'' = style (nodes example_world r') ''height''"
    by (elim exE conjE) (rule that)
  then have 3: "\<exists>w'. handleEntering width_props (Some 0) example_world = Inr ((), w')
         \<and> style (nodes w' 0) ''height'' = None"
    using h0 by simp
  from W [THEN conjunct2, THEN conjunct2, THEN conjunct2, rule_format, OF refl g]
  obtain w'' where "handleExit width_props (Some 0) example_world = Inr ((), w'')"
    and "\<forall>r'. style (nodes w'' r') ''height'' = style (nodes example_world r') ''height''"
    by (elim exE conjE) (rule that)
  then have 4: "\<exists>w'. handleExit width_props (Some 0) example_world = Inr ((), w')
         \<and> style (nodes w' 0) ''height'' = None"
    using h0 by simp
  from g 1 3 4 show ?thesis
    by (simp add: width_dimension)
qed

subsection \<open>What is passed on and what is not\<close>

text \<open>
  C10. The claim is that every prop other than the dimension, the extent calculator and
  the five callbacks reaches the delegate unchanged. The class name does not: with the
  dimension width the class name \<open>panel\<close> of the caller reaches the delegate as
  \<open>panel width\<close>.
\<close>

theorem className_counterexample:
  "props_obj panel_props ''className'' = Some (PStr ''panel'')
   \<and> rendered_prop panel_props example_world ''className'' = Inr (Some (PStr ''panel width''))"
proof -
  have d: "this_dimension panel_props example_world = Inr (Width, example_world)"
    by (simp add: this_dimension_def panel_props_def plain_defs ret_def)
  have c: "props_className panel_props = Some ''panel''"
    by (simp add: panel_props_def plain_defs)
  obtain out where r: "render panel_props example_world = Inr (out, example_world)"
    and n: "out ''className'' =
              Some (PStr (classNames (props_className panel_props) [(''width'', Width = Width)]))"
    using render_className [OF d] by blast
  have "out ''className'' = Some (PStr ''panel width'')"
    using n c by (simp add: classNames_def)
  then show ?thesis
    using rendered_prop_Inr [OF r, of "''className''"] c
    by (simp add: props_obj_def)
qed

text \<open>
  C10, amended. The dimension and the extent calculator are not passed on. Each of the
  five callbacks is passed on as its chained version. The class name is passed on
  joined with the width flag. The component sets five props itself, whatever the caller
  gave under their names: \<open>aria-expanded\<close> is the boolean \<open>in\<close> when the role is given and
  not empty and null otherwise, \<open>exitedClassName\<close> is \<open>collapse\<close>, \<open>exitingClassName\<close> and
  \<open>enteringClassName\<close> are \<open>collapsing\<close>, \<open>enteredClassName\<close> is \<open>collapse in\<close>. Every other
  prop reaches the delegate unchanged.
\<close>

theorem delegate_props:
  assumes "render p w = Inr (out, w')"
  shows "out ''dimension'' = None
       \<and> out ''getDimensionValue'' = None
       \<and> (\<forall>ph. out (phase_key ph) =
             Some (PFunc (createChainedFunction (internal_handler ph p) (user_handler ph p))))
       \<and> (\<exists>d. this_dimension p w = Inr (d, w')
             \<and> out ''className'' =
                 Some (PStr (classNames (props_className p) [(''width'', d = Width)])))
       \<and> out ''aria-expanded'' =
           (if props_role p = None \<or> props_role p = Some [] then Some PNull
            else Some (PBool (props_in p)))
       \<and> out ''exitedClassName'' = Some (PStr ''collapse'')
       \<and> out ''exitingClassName'' = Some (PStr ''collapsing'')
       \<and> out ''enteredClassName'' = Some (PStr ''collapse in'')
       \<and> out ''enteringClassName'' = Some (PStr ''collapsing'')
       \<and> (\<forall>k. k \<notin> managed_keys \<longrightarrow> out k = props_obj p k)"
proof -
  obtain d where d: "this_dimension p w = Inr (d, w')"
    using render_dimension [OF assms] by (elim exE)
  from render_className [OF d]
  obtain out' where r': "render p w = Inr (out', w')"
    and n: "out' ''className'' =
              Some (PStr (classNames (props_className p) [(''width'', d = Width)]))"
    by (elim exE conjE) (rule that)
  have "out' = out"
    using r' assms by simp
  with d n have c: "this_dimension p w = Inr (d, w')
             \<and> out ''className'' =
                 Some (PStr (classNames (props_className p) [(''width'', d = Width)]))"
    by simp
  note F = render_fixed [OF assms]
  show ?thesis
  proof (intro conjI allI impI)
    show "out ''dimension'' = None"
      using render_deleted [OF assms] by (rule conjunct1)
    show "out ''getDimensionValue'' = None"
      using render_deleted [OF assms] by (rule conjunct2)
    show "out (phase_key ph) =
             Some (PFunc (createChainedFunction (internal_handler ph p) (user_handler ph p)))"
      for ph
      by (rule render_phase [OF assms])
    show "\<exists>d. this_dimension p w = Inr (d, w')
             \<and> out ''className'' =
                 Some (PStr (classNames (props_className p) [(''width'', d = Width)]))"
      using c by (rule exI)
    show "out ''aria-expanded'' =
           (if props_role p = None \<or> props_role p = Some [] then Some PNull
            else Some (PBool (props_in p)))"
      using render_aria [OF assms] by (cases "props_role p") auto
    show "out ''exitedClassName'' = Some (PStr ''collapse'')"
      using F by (rule conjunct1)
    show "out ''exitingClassName'' = Some (PStr ''collapsing'')"
      using F [THEN conjunct2] by (rule conjunct1)
    show "out ''enteredClassName'' = Some (PStr ''collapse in'')"
      using F [THEN conjunct2, THEN conjunct2] by (rule conjunct1)
    show "out ''enteringClassName'' = Some (PStr ''collapsing'')"
      using F [THEN conjunct2, THEN conjunct2] by (rule conjunct2)
    show "out k = props_obj p k" if "k \<notin> managed_keys" for k
      by (rule render_unmanaged [OF assms that])
  qed
qed

theorem delegate_props_witness:
  "props_obj panel_props ''exitedClassName'' = Some (PStr ''mine'')
   \<and> (\<exists>out. render panel_props example_world = Inr (out, example_world)
     \<and> out ''dimension'' = None
     \<and> out ''getDimensionValue'' = None
     \<and> out ''aria-expanded'' = Some PNull
     \<and> out ''exitedClassName'' = Some (PStr ''collapse'')
     \<and> out ''exitingClassName'' = Some (PStr ''collapsing'')
     \<and> out ''enteredClassName'' = Some (PStr ''collapse in'')
     \<and> out ''enteringClassName'' = Some (PStr ''collapsing'')
     \<and> out ''id'' = Some (PStr ''menu'')
     \<and> out ''timeout'' = Some (PNum 300)
     \<and> out ''in'' = Some (PBool False)
     \<and> out ''onExited'' = None)"
proof -
  have d: "this_dimension panel_props example_world = Inr (Width, example_world)"
    by (simp add: this_dimension_def panel_props_def plain_defs ret_def)
  from render_className [OF d]
  obtain out where r: "render panel_props example_world = Inr (out, example_world)"
    by (elim exE conjE) (rule that)
  have k: "''id'' \<notin> managed_keys" "''timeout'' \<notin> managed_keys" "''in'' \<notin> managed_keys"
      "''onExited'' \<notin> managed_keys"
    by (simp_all add: managed_keys_def)
  have v: "props_obj panel_props ''id'' = Some (PStr ''menu'')"
      "props_obj panel_props ''timeout'' = Some (PNum 300)"
      "props_obj panel_props ''in'' = Some (PBool False)"
      "props_obj panel_props ''onExited'' = None"
    by (simp_all add: props_obj_def panel_props_def plain_defs)
  have m: "props_obj panel_props ''exitedClassName'' = Some (PStr ''mine'')"
    by (simp add: props_obj_def panel_props_def plain_defs)
  have ro: "props_role panel_props = None"
    by (simp add: panel_props_def plain_defs)
  note D = delegate_props [OF r]
  note D4 = D [THEN conjunct2, THEN conjunct2, THEN conjunct2, THEN conjunct2]
  have 1: "out ''dimension'' = None"
    using D by (rule conjunct1)
  have 2: "out ''getDimensionValue'' = None"
    using D [THEN conjunct2] by (rule conjunct1)
  have a: "out ''aria-expanded'' = Some PNull"
    using D4 [THEN conjunct1] ro by simp
  have c1: "out ''exitedClassName'' = Some (PStr ''collapse'')"
    using D4 [THEN conjunct2] by (rule conjunct1)
  have c2: "out ''exitingClassName'' = Some (PStr ''collapsing'')"
    using D4 [THEN conjunct2, THEN conjunct2] by (rule conjunct1)
  have c3: "out ''enteredClassName'' = Some (PStr ''collapse in'')"
    using D4 [THEN conjunct2, THEN conjunct2, THEN conjunct2] by (rule conjunct1)
  note D8 = D4 [THEN conjunct2, THEN conjunct2, THEN conjunct2, THEN conjunct2]
  have c4: "out ''enteringClassName'' = Some (PStr ''collapsing'')"
    using D8 by (rule conjunct1)
  have U: "\<forall>k. k \<notin> managed_keys \<longrightarrow> out k = props_obj panel_props k"
    using D8 by (rule conjunct2)
  have 3: "out ''id'' = Some (PStr ''menu'')"
    using U k(1) v(1) by simp
  have 4: "out ''timeout'' = Some (PNum 300)"
    using U k(2) v(2) by simp
  have 5: "out ''in'' = Some (PBool False)"
    using U k(3) v(3) by simp
  have 6: "out ''onExited'' = None"
    using U k(4) v(4) by simp
  have "\<exists>out. render panel_props example_world = Inr (out, example_world)
     \<and> out ''dimension'' = None
     \<and> out ''getDimensionValue'' = None
     \<and> out ''aria-expanded'' = Some PNull
     \<and> out ''exitedClassName'' = Some (PStr ''collapse'')
     \<and> out ''exitingClassName'' = Some (PStr ''collapsing'')
     \<and> out ''enteredClassName'' = Some (PStr ''collapse in'')
     \<and> out ''enteringClassName'' = Some (PStr ''collapsing'')
     \<and> out ''id'' = Some (PStr ''menu'')
     \<and> out ''timeout'' = Some (PNum 300)
     \<and> out ''in'' = Some (PBool False)
     \<and> out ''onExited'' = None"
    by (rule exI [of _ out]) (intro conjI r 1 2 a c1 c2 c3 c4 3 4 5 6)
  with m show ?thesis
    by (rule conjI)
qed

end
